theory Spec2Isabelle
  imports Complex_Main "HOL-Library.Product_Lexorder"
begin

section \<open>Data model\<close>

text \<open>
  The price-offer application of \<^verbatim>\<open>src/server/api/routers/post.ts\<close> and
  \<^verbatim>\<open>src/server/api/routers/product/index.ts\<close>. The handlers are embedded as functions
  that take the world (relational store, object storage, clock) and return their outcome
  together with the world they leave behind. A rejected promise or a \<^verbatim>\<open>throw\<close> is the
  left injection of the outcome.

  A price is a JavaScript number on the wire and a \<^verbatim>\<open>Decimal\<close> in the store. The model
  takes a number at its exact value and a decimal at its value, both rationals. What
  \<^verbatim>\<open>new Prisma.Decimal\<close> makes of a number, what the price column keeps of a decimal and
  which stored prices the store's filter \<^verbatim>\<open>price: n\<close> selects for a number \<open>n\<close> are decided
  by the store and its client, not by the handlers: they are parameters of the world.
  Instants are milliseconds since the epoch.
\<close>

record post =
  post_id :: string
  productId :: string
  commerceId :: string
  price :: rat
  publishDate :: int
  image :: string
  authorId :: string

record colaboration =
  colaboration_id :: string
  postId :: string
  userId :: string

record product =
  product_id :: string
  product_name :: string
  product_categoryId :: string

datatype s3_command =
    HeadObjectCommand string string
  | CopyObjectCommand "string \<times> string" string string
  | DeleteObjectCommand string string

text \<open>
  \<^verbatim>\<open>CopyObjectCommand\<close> carries its \<^verbatim>\<open>CopySource\<close> first, then \<^verbatim>\<open>Bucket\<close> and \<^verbatim>\<open>Key\<close>.
  The source writes \<^verbatim>\<open>CopySource\<close> as the path \<^verbatim>\<open>bucket/key\<close>; the model keeps the two
  components of that path.
\<close>

datatype s3_error = NotFound | NoSuchKey | ServiceFailure

datatype s3_output =
    HeadObjectOutput
  | CopyObjectOutput "string option"
  | DeleteObjectOutput

fun CopyObjectResult :: "s3_output \<Rightarrow> string option" where
  "CopyObjectResult (CopyObjectOutput r) = r"
| "CopyObjectResult _ = None"

datatype trpc_code = BAD_REQUEST | INTERNAL_SERVER_ERROR | NOT_FOUND | FORBIDDEN | CONFLICT

datatype error =
    TRPCError trpc_code "string option"
  | S3ServiceException s3_error
  | PrismaClientKnownRequestError string
  | Error string

record env =
  S3_BUCKET_NAME :: string
  S3_BUCKET_URL :: string

text \<open>
  The world. \<open>posts\<close>, \<open>colaborations\<close> and \<open>products\<close> are the tables of the relational
  store in table order, \<open>commerces\<close> and \<open>users\<close> the keys of the rows of the two other
  tables an offer refers to; \<open>uuid\<close> and \<open>created\<close> are its generator of primary keys (the
  \<open>n\<close>-th key it hands out) and the number of keys handed out so far.
  \<open>Prisma_Decimal w n\<close> is the decimal \<^verbatim>\<open>new Prisma.Decimal(n)\<close>, \<open>price_column w x\<close> what the
  price column keeps of a decimal \<open>x\<close> written to it, and \<open>price_filter w n x\<close> says that the
  filter \<^verbatim>\<open>price: n\<close> selects a row whose stored price is \<open>x\<close>. \<open>objects\<close> is the
  content of object storage by bucket and key. \<open>s3_rejects\<close> are the requests that
  object storage refuses whatever it holds (network, credentials, throttling),
  \<open>s3_unconfirmed\<close> says that a copy is answered without a \<^verbatim>\<open>CopyObjectResult\<close>, and
  \<open>s3_log\<close> is every request sent to object storage, oldest first. \<open>clock\<close> is the
  current instant; it does not advance within one request.

  A row is created with \<^verbatim>\<open>connect\<close> to the rows it refers to, and the store refuses the
  creation with the code \<^verbatim>\<open>P2025\<close> when one of them is absent. The referential actions
  of the schema on deletion, which is not part of the sources, are left out.
\<close>

record world =
  clock :: int
  posts :: "post list"
  colaborations :: "colaboration list"
  products :: "product list"
  commerces :: "string list"
  users :: "string list"
  uuid :: "nat \<Rightarrow> string"
  created :: nat
  Prisma_Decimal :: "rat \<Rightarrow> rat"
  price_column :: "rat \<Rightarrow> rat"
  price_filter :: "rat \<Rightarrow> rat \<Rightarrow> bool"
  objects :: "string \<times> string \<rightharpoonup> string"
  s3_rejects :: "s3_command \<Rightarrow> bool"
  s3_unconfirmed :: bool
  s3_log :: "s3_command list"

section \<open>Object storage\<close>

fun s3_respond :: "s3_command \<Rightarrow> world \<Rightarrow> (s3_error + s3_output) \<times> world" where
  "s3_respond (HeadObjectCommand b k) w =
     (case objects w (b, k) of
        None \<Rightarrow> (Inl NotFound, w)
      | Some _ \<Rightarrow> (Inr HeadObjectOutput, w))"
| "s3_respond (CopyObjectCommand src b k) w =
     (case objects w src of
        None \<Rightarrow> (Inl NoSuchKey, w)
      | Some v \<Rightarrow>
          if s3_unconfirmed w then (Inr (CopyObjectOutput None), w)
          else (Inr (CopyObjectOutput (Some v)), w\<lparr>objects := (objects w)((b, k) \<mapsto> v)\<rparr>))"
| "s3_respond (DeleteObjectCommand b k) w =
     (Inr DeleteObjectOutput, w\<lparr>objects := (objects w)((b, k) := None)\<rparr>)"

definition s3_send :: "s3_command \<Rightarrow> world \<Rightarrow> (s3_error + s3_output) \<times> world" where
  "s3_send cmd w =
     (let w' = w\<lparr>s3_log := s3_log w @ [cmd]\<rparr>
      in if s3_rejects w cmd then (Inl ServiceFailure, w') else s3_respond cmd w')"

definition IMAGE_PREFIX :: string where
  "IMAGE_PREFIX = ''pre-''"

definition validateS3image :: "env \<Rightarrow> string \<Rightarrow> world \<Rightarrow> (error + string) \<times> world" where
  "validateS3image e imageKeyWithoutPrefix w =
     (case s3_send (HeadObjectCommand (S3_BUCKET_NAME e)
                      (IMAGE_PREFIX @ imageKeyWithoutPrefix)) w of
        (Inl _, w1) \<Rightarrow> (Inl (TRPCError BAD_REQUEST (Some ''IMAGE_KEY_NOT_FOUND'')), w1)
      | (Inr _, w1) \<Rightarrow>
          (case s3_send (CopyObjectCommand
                           (S3_BUCKET_NAME e, IMAGE_PREFIX @ imageKeyWithoutPrefix)
                           (S3_BUCKET_NAME e) imageKeyWithoutPrefix) w1 of
             (Inl err, w2) \<Rightarrow> (Inl (S3ServiceException err), w2)
           | (Inr copyOutput, w2) \<Rightarrow>
               if CopyObjectResult copyOutput = None
               then (Inl (TRPCError INTERNAL_SERVER_ERROR (Some ''IMAGE_VALIDATION_ERROR'')), w2)
               else
                 (case s3_send (DeleteObjectCommand (S3_BUCKET_NAME e)
                                  (IMAGE_PREFIX @ imageKeyWithoutPrefix)) w2 of
                    (Inl err, w3) \<Rightarrow> (Inl (S3ServiceException err), w3)
                  | (Inr _, w3) \<Rightarrow>
                      (Inr (S3_BUCKET_URL e @ ''/'' @ imageKeyWithoutPrefix), w3))))"

section \<open>The clock\<close>

text \<open>
  A luxon \<^verbatim>\<open>DateTime\<close>: an instant with the offset of its zone in minutes, or an
  invalid value with its reason. \<open>fixed_offset\<close> reads the zone names \<^verbatim>\<open>UTC\<close>,
  \<^verbatim>\<open>UTC+h\<close> and \<^verbatim>\<open>UTC-h\<close> with one or two digits; any other name makes the value
  invalid in this model.
\<close>

datatype datetime = DateTime int int | Invalid string

definition digit_val :: "char \<Rightarrow> nat option" where
  "digit_val c =
     (let n = (of_char c :: nat) in if 48 \<le> n \<and> n \<le> 57 then Some (n - 48) else None)"

fun hours_val :: "string \<Rightarrow> nat option" where
  "hours_val [a] = digit_val a"
| "hours_val [a, b] =
     (case (digit_val a, digit_val b) of
        (Some x, Some y) \<Rightarrow> Some (10 * x + y)
      | _ \<Rightarrow> None)"
| "hours_val _ = None"

definition fixed_offset :: "string \<Rightarrow> int option" where
  "fixed_offset z =
     (if z = ''UTC'' then Some 0
      else if take 4 z = ''UTC+'' then map_option (\<lambda>h. 60 * int h) (hours_val (drop 4 z))
      else if take 4 z = ''UTC-'' then map_option (\<lambda>h. - (60 * int h)) (hours_val (drop 4 z))
      else None)"

definition DateTime_now :: "world \<Rightarrow> datetime" where
  "DateTime_now w = DateTime (clock w) 0"

fun setZone :: "string \<Rightarrow> datetime \<Rightarrow> datetime" where
  "setZone z (DateTime t _) =
     (case fixed_offset z of
        None \<Rightarrow> Invalid ''unsupported zone''
      | Some off \<Rightarrow> DateTime t off)"
| "setZone z (Invalid r) = Invalid r"

fun startOf_day :: "datetime \<Rightarrow> datetime" where
  "startOf_day (DateTime t off) =
     DateTime (((t + off * 60000) div 86400000) * 86400000 - off * 60000) off"
| "startOf_day (Invalid r) = Invalid r"

fun toUTC :: "datetime \<Rightarrow> datetime" where
  "toUTC (DateTime t _) = DateTime t 0"
| "toUTC (Invalid r) = Invalid r"

text \<open>
  \<^verbatim>\<open>toISO\<close> prints the instant to the millisecond, and \<^verbatim>\<open>null\<close> for an invalid value;
  the store reads the instant back, so the model keeps the instant.
\<close>

fun toISO :: "datetime \<Rightarrow> int option" where
  "toISO (DateTime t _) = Some t"
| "toISO (Invalid r) = None"

section \<open>The relational store\<close>

text \<open>
  \<^verbatim>\<open>findFirst\<close> returns the first row, in table order, that satisfies the \<^verbatim>\<open>where\<close>
  clause, and \<^verbatim>\<open>findUnique\<close> the row with the given key; both return \<open>None\<close> (\<^verbatim>\<open>null\<close>) when
  there is none.
\<close>

definition db_post_findFirst :: "(post \<Rightarrow> bool) \<Rightarrow> world \<Rightarrow> post option" where
  "db_post_findFirst wh w = find wh (posts w)"

definition db_post_findUnique :: "string \<Rightarrow> world \<Rightarrow> post option" where
  "db_post_findUnique i w = find (\<lambda>p. post_id p = i) (posts w)"

text \<open>
  A created row takes its key from the generator and, for an offer, the current instant
  as \<open>publishDate\<close> (the column defaults of the schema). The offer is created with
  \<^verbatim>\<open>connect\<close> to its product, commerce and author, the collaboration with \<^verbatim>\<open>connect\<close> to
  its offer and user.
\<close>

definition db_post_create ::
  "string \<Rightarrow> string \<Rightarrow> string \<Rightarrow> rat \<Rightarrow> string \<Rightarrow> world \<Rightarrow> (error + post) \<times> world" where
  "db_post_create product commerce img pr author w =
     (if list_ex (\<lambda>q. product_id q = product) (products w) \<and>
         commerce \<in> set (commerces w) \<and> author \<in> set (users w)
      then
        (let p = \<lparr>post_id = uuid w (created w), productId = product, commerceId = commerce,
                  price = price_column w pr, publishDate = clock w, image = img,
                  authorId = author\<rparr>
         in (Inr p, w\<lparr>posts := posts w @ [p], created := Suc (created w)\<rparr>))
      else (Inl (PrismaClientKnownRequestError ''P2025''), w))"

definition db_colaboration_create ::
  "string \<Rightarrow> string \<Rightarrow> world \<Rightarrow> (error + colaboration) \<times> world" where
  "db_colaboration_create pid uid w =
     (if list_ex (\<lambda>p. post_id p = pid) (posts w) \<and> uid \<in> set (users w)
      then
        (let c = \<lparr>colaboration_id = uuid w (created w), postId = pid, userId = uid\<rparr>
         in (Inr c, w\<lparr>colaborations := colaborations w @ [c], created := Suc (created w)\<rparr>))
      else (Inl (PrismaClientKnownRequestError ''P2025''), w))"

text \<open>
  \<^verbatim>\<open>delete\<close> removes the row with the key and returns it; the store refuses with the code
  \<^verbatim>\<open>P2025\<close> when no row has the key.
\<close>

definition db_post_delete :: "string \<Rightarrow> world \<Rightarrow> (error + post) \<times> world" where
  "db_post_delete i w =
     (case find (\<lambda>p. post_id p = i) (posts w) of
        None \<Rightarrow> (Inl (PrismaClientKnownRequestError ''P2025''), w)
      | Some p \<Rightarrow> (Inr p, w\<lparr>posts := filter (\<lambda>q. post_id q \<noteq> i) (posts w)\<rparr>))"

text \<open>
  \<open>distinct_by f\<close> keeps, of the rows that agree on \<open>f\<close>, the first one in the order
  given: the way the store's client reads \<^verbatim>\<open>distinct\<close> after ordering.
\<close>

fun distinct_by :: "('a \<Rightarrow> 'k) \<Rightarrow> 'a list \<Rightarrow> 'a list" where
  "distinct_by f [] = []"
| "distinct_by f (x # xs) = x # distinct_by f (filter (\<lambda>y. f y \<noteq> f x) xs)"

record offer_row =
  offer :: post
  count_colaborations :: nat

text \<open>
  The \<^verbatim>\<open>findMany\<close> of the daily feed: the rows with \<open>publishDate\<close> at or after the bound,
  ordered by price ascending and then by \<open>publishDate\<close> descending, distinct by
  \<open>productId\<close>, each with the count of its collaborations. Rows that agree on both keys
  of the order stay in table order. Of the relations selected (product, commerce,
  author) a row keeps the identifiers.
\<close>

definition db_post_findMany_daily :: "int \<Rightarrow> world \<Rightarrow> offer_row list" where
  "db_post_findMany_daily gte w =
     map (\<lambda>p. \<lparr>offer = p,
               count_colaborations =
                 length (filter (\<lambda>c. postId c = post_id p) (colaborations w))\<rparr>)
       (distinct_by productId
          (sort_key (\<lambda>p. (price p, - publishDate p))
             (filter (\<lambda>p. gte \<le> publishDate p) (posts w))))"

text \<open>
  An update of a product fails with \<^verbatim>\<open>P2025\<close> when no row has the key and with \<^verbatim>\<open>P2002\<close>
  when another row already has the name (the name is a unique field).
\<close>

definition db_product_update ::
  "string \<Rightarrow> string \<Rightarrow> string \<Rightarrow> world \<Rightarrow> (error + product) \<times> world" where
  "db_product_update i nm cat w =
     (case find (\<lambda>p. product_id p = i) (products w) of
        None \<Rightarrow> (Inl (PrismaClientKnownRequestError ''P2025''), w)
      | Some _ \<Rightarrow>
          if list_ex (\<lambda>q. product_id q \<noteq> i \<and> product_name q = nm) (products w)
          then (Inl (PrismaClientKnownRequestError ''P2002''), w)
          else
            (let p' = \<lparr>product_id = i, product_name = nm, product_categoryId = cat\<rparr>
             in (Inr p', w\<lparr>products := map (\<lambda>q. if product_id q = i then p' else q) (products w)\<rparr>)))"

fun error_code :: "error \<Rightarrow> string option" where
  "error_code (PrismaClientKnownRequestError c) = Some c"
| "error_code _ = None"

section \<open>The procedures of the post router\<close>

record publish_input =
  input_productId :: string
  input_commerceId :: string
  input_imageKey :: string
  input_price :: rat

text \<open>
  The input schema of \<^verbatim>\<open>publish\<close> and \<^verbatim>\<open>create\<close>: both identifiers non-empty and of UUID
  shape (groups of 8, 4, 4, 4 and 12 hexadecimal digits), a non-empty image key, a
  strictly positive price.
\<close>

definition is_hex :: "char \<Rightarrow> bool" where
  "is_hex c \<longleftrightarrow>
     (let n = (of_char c :: nat)
      in (48 \<le> n \<and> n \<le> 57) \<or> (97 \<le> n \<and> n \<le> 102) \<or> (65 \<le> n \<and> n \<le> 70))"

definition is_uuid :: "string \<Rightarrow> bool" where
  "is_uuid s \<longleftrightarrow> length s = 36 \<and>
     list_all is_hex (take 8 s) \<and> s ! 8 = CHR ''-'' \<and>
     list_all is_hex (take 4 (drop 9 s)) \<and> s ! 13 = CHR ''-'' \<and>
     list_all is_hex (take 4 (drop 14 s)) \<and> s ! 18 = CHR ''-'' \<and>
     list_all is_hex (take 4 (drop 19 s)) \<and> s ! 23 = CHR ''-'' \<and>
     list_all is_hex (drop 24 s)"

definition publish_schema :: "publish_input \<Rightarrow> bool" where
  "publish_schema inp \<longleftrightarrow>
     input_productId inp \<noteq> [] \<and> is_uuid (input_productId inp) \<and>
     input_commerceId inp \<noteq> [] \<and> is_uuid (input_commerceId inp) \<and>
     input_imageKey inp \<noteq> [] \<and> 0 < input_price inp"

datatype publish_result = Nothing | Colaboration colaboration | Post post

text \<open>
  The \<^verbatim>\<open>where\<close> clause of the duplicate query of \<^verbatim>\<open>publish\<close>: \<open>publishDate\<close> at or after
  the bound, the product and the commerce equal to the input's, and the price selected
  by the store's filter for the input's number, which the handler passes as it is.
\<close>

definition publish_where :: "world \<Rightarrow> int option \<Rightarrow> publish_input \<Rightarrow> post \<Rightarrow> bool" where
  "publish_where w gte inp p \<longleftrightarrow>
     (case gte of None \<Rightarrow> False | Some t \<Rightarrow> t \<le> publishDate p) \<and>
     productId p = input_productId inp \<and>
     commerceId p = input_commerceId inp \<and>
     price_filter w (input_price inp) (price p)"

definition publish ::
  "env \<Rightarrow> string \<Rightarrow> publish_input \<Rightarrow> world \<Rightarrow> (error + publish_result) \<times> world" where
  "publish e user_id inp w =
     (case startOf_day (setZone ''UTC-3'' (DateTime_now w)) of
        Invalid invalidReason \<Rightarrow> (Inl (Error invalidReason), w)
      | DateTime t off \<Rightarrow>
          (case db_post_findFirst (publish_where w (toISO (toUTC (DateTime t off))) inp) w of
             Some existentPost \<Rightarrow>
               if authorId existentPost = user_id then (Inr Nothing, w)
               else
                 (case db_colaboration_create (post_id existentPost) user_id w of
                    (Inl err, w') \<Rightarrow> (Inl err, w')
                  | (Inr c, w') \<Rightarrow> (Inr (Colaboration c), w'))
           | None \<Rightarrow>
               (case validateS3image e (input_imageKey inp) w of
                  (Inl err, w1) \<Rightarrow> (Inl err, w1)
                | (Inr imageUrl, w1) \<Rightarrow>
                    (case db_post_create (input_productId inp) (input_commerceId inp) imageUrl
                            (Prisma_Decimal w1 (input_price inp)) user_id w1 of
                       (Inl err, w2) \<Rightarrow> (Inl err, w2)
                     | (Inr p, w2) \<Rightarrow> (Inr (Post p), w2)))))"

definition create ::
  "env \<Rightarrow> string \<Rightarrow> publish_input \<Rightarrow> world \<Rightarrow> (error + post) \<times> world" where
  "create e user_id inp w =
     (case validateS3image e (input_imageKey inp) w of
        (Inl err, w1) \<Rightarrow> (Inl err, w1)
      | (Inr imageUrl, w1) \<Rightarrow>
          db_post_create (input_productId inp) (input_commerceId inp) imageUrl
            (Prisma_Decimal w1 (input_price inp)) user_id w1)"

text \<open>
  A procedure runs its handler on an input that passes the schema and fails with
  \<^verbatim>\<open>BAD_REQUEST\<close> before the handler on any other.
\<close>

definition publish_procedure ::
  "env \<Rightarrow> string \<Rightarrow> publish_input \<Rightarrow> world \<Rightarrow> (error + publish_result) \<times> world" where
  "publish_procedure e user_id inp w =
     (if publish_schema inp then publish e user_id inp w
      else (Inl (TRPCError BAD_REQUEST None), w))"

definition create_procedure ::
  "env \<Rightarrow> string \<Rightarrow> publish_input \<Rightarrow> world \<Rightarrow> (error + post) \<times> world" where
  "create_procedure e user_id inp w =
     (if publish_schema inp then create e user_id inp w
      else (Inl (TRPCError BAD_REQUEST None), w))"

text \<open>
  The bound \<^verbatim>\<open>now.toUTC().toISO()\<close> that \<^verbatim>\<open>publish\<close> and \<^verbatim>\<open>getDailyBestOffers\<close> both pass to
  the store: the start of the current day of the offset \<^verbatim>\<open>UTC-3\<close>.
\<close>

definition dayStart :: "world \<Rightarrow> int option" where
  "dayStart w = toISO (toUTC (startOf_day (setZone ''UTC-3'' (DateTime_now w))))"

text \<open>
  \<^verbatim>\<open>getDailyBestOffers\<close> does not test the validity of the start of the day; an invalid
  one has no ISO text, and the query fails.
\<close>

definition getDailyBestOffers :: "world \<Rightarrow> error + offer_row list" where
  "getDailyBestOffers w =
     (case toISO (toUTC (startOf_day (setZone ''UTC-3'' (DateTime_now w)))) of
        None \<Rightarrow> Inl (Error ''Invalid DateTime'')
      | Some gte \<Rightarrow> Inr (db_post_findMany_daily gte w))"

definition deleteOwnPost :: "string \<Rightarrow> string \<Rightarrow> world \<Rightarrow> (error + post) \<times> world" where
  "deleteOwnPost user_id input_id w =
     (case db_post_findUnique input_id w of
        None \<Rightarrow> (Inl (TRPCError NOT_FOUND None), w)
      | Some p \<Rightarrow>
          if authorId p \<noteq> user_id
          then (Inl (TRPCError FORBIDDEN
                  (Some (''No eres el autor de la publicaci'' @ [CHR 0xC3, CHR 0xB3] @ ''n''))), w)
          else db_post_delete input_id w)"

text \<open>The input schema of \<^verbatim>\<open>deleteOwnPost\<close>: an id of UUID shape.\<close>

definition deleteOwnPost_procedure ::
  "string \<Rightarrow> string \<Rightarrow> world \<Rightarrow> (error + post) \<times> world" where
  "deleteOwnPost_procedure user_id input_id w =
     (if is_uuid input_id then deleteOwnPost user_id input_id w
      else (Inl (TRPCError BAD_REQUEST None), w))"

section \<open>The procedures of the product router\<close>

text \<open>
  \<^verbatim>\<open>update\<close> awaits the store's update with a \<^verbatim>\<open>catch\<close> handler. The handler throws
  \<^verbatim>\<open>CONFLICT\<close> for the code \<^verbatim>\<open>P2002\<close> and otherwise ends without a value, so the promise
  resolves to \<^verbatim>\<open>undefined\<close>: the result \<open>None\<close>.
\<close>

definition update ::
  "string \<Rightarrow> string \<Rightarrow> string \<Rightarrow> world \<Rightarrow> (error + product option) \<times> world" where
  "update i nm cat w =
     (case db_product_update i nm cat w of
        (Inr p, w') \<Rightarrow> (Inr (Some p), w')
      | (Inl err, w') \<Rightarrow>
          if error_code err = Some ''P2002''
          then (Inl (TRPCError CONFLICT (Some ''Ya existe un producto con ese nombre'')), w')
          else (Inr None, w'))"

text \<open>
  \<open>duplicate_of w d inp p\<close> writes out what the duplicate query asks of an offer \<open>p\<close>:
  published at or after \<open>d\<close>, for the input's product and commerce, at a price the
  store's filter selects for the input's number.
\<close>

abbreviation duplicate_of :: "world \<Rightarrow> int \<Rightarrow> publish_input \<Rightarrow> post \<Rightarrow> bool" where
  "duplicate_of w d inp p \<equiv>
     d \<le> publishDate p \<and> productId p = input_productId inp \<and>
     commerceId p = input_commerceId inp \<and> price_filter w (input_price inp) (price p)"

section \<open>Example data\<close>

definition env0 :: env where
  "env0 = \<lparr>S3_BUCKET_NAME = ''precios'', S3_BUCKET_URL = ''https://cdn.example''\<rparr>"

text \<open>
  A store with no rows and a bucket that holds one uploaded image under its temporary
  key \<^verbatim>\<open>pre-abc\<close>; the clock shows 1970-01-02T03:46:40Z, so the day of the offset
  \<^verbatim>\<open>UTC-3\<close> began at \<open>97200000\<close>. This store keeps a price as it is given and its
  filter selects the rows whose price is the number.
\<close>

definition w0 :: world where
  "w0 = \<lparr>clock = 100000000, posts = [], colaborations = [], products = [],
          commerces = [], users = [],
          uuid = (\<lambda>n. ''row-'' @ replicate n (CHR ''i'')), created = 0,
          Prisma_Decimal = (\<lambda>n. n), price_column = (\<lambda>x. x),
          price_filter = (\<lambda>n x. x = n),
          objects = [(''precios'', ''pre-abc'') \<mapsto> ''jpeg''],
          s3_rejects = (\<lambda>_. False), s3_unconfirmed = False, s3_log = []\<rparr>"

definition inp0 :: publish_input where
  "inp0 = \<lparr>input_productId = ''11111111-1111-4111-8111-111111111111'',
            input_commerceId = ''22222222-2222-4222-8222-222222222222'',
            input_imageKey = ''abc'', input_price = 10\<rparr>"

text \<open>An offer of the day for the product and commerce of \<open>inp0\<close>, by the user \<^verbatim>\<open>ana\<close>.\<close>

definition offer0 :: "string \<Rightarrow> rat \<Rightarrow> int \<Rightarrow> post" where
  "offer0 i pr t =
     \<lparr>post_id = i, productId = ''11111111-1111-4111-8111-111111111111'',
      commerceId = ''22222222-2222-4222-8222-222222222222'', price = pr, publishDate = t,
      image = ''https://cdn.example/old'', authorId = ''ana''\<rparr>"

text \<open>The same world, with object storage refusing to delete the temporary object.\<close>

definition w_delete_refused :: world where
  "w_delete_refused = w0\<lparr>s3_rejects := (\<lambda>c. c = DeleteObjectCommand ''precios'' ''pre-abc'')\<rparr>"

text \<open>
  The world \<open>w0\<close> with the product and the commerce of \<open>inp0\<close> and the users \<^verbatim>\<open>ana\<close> and
  \<^verbatim>\<open>bob\<close>.
\<close>

definition w_shop :: world where
  "w_shop = w0\<lparr>products := [\<lparr>product_id = ''11111111-1111-4111-8111-111111111111'',
                                product_name = ''yerba'',
                                product_categoryId = ''55555555-5555-4555-8555-555555555555''\<rparr>],
               commerces := [''22222222-2222-4222-8222-222222222222''],
               users := [''ana'', ''bob'']\<rparr>"

text \<open>An offer like \<open>offer0\<close> with a key of UUID shape, and the same by \<^verbatim>\<open>bob\<close>.\<close>

definition offer_ana :: "rat \<Rightarrow> int \<Rightarrow> post" where
  "offer_ana pr t = offer0 ''aaaaaaaa-aaaa-4aaa-8aaa-aaaaaaaaaaaa'' pr t"

definition offer_bob :: "rat \<Rightarrow> int \<Rightarrow> post" where
  "offer_bob pr t =
     (offer0 ''bbbbbbbb-bbbb-4bbb-8bbb-bbbbbbbbbbbb'' pr t)\<lparr>authorId := ''bob''\<rparr>"

text \<open>The shop with one offer of the day, by \<^verbatim>\<open>ana\<close>, at the given price.\<close>

definition w_ana :: "rat \<Rightarrow> world" where
  "w_ana pr = w_shop\<lparr>posts := [offer_ana pr 98000000]\<rparr>"

text \<open>
  The shop with an offer of the day at 12 and an offer of the day before at 10, both by
  \<^verbatim>\<open>ana\<close>.
\<close>

definition w_other :: world where
  "w_other = w_shop\<lparr>posts := [offer_ana 12 98000000, offer0 ''row-old'' 10 97100000]\<rparr>"

text \<open>
  The shop with two offers of the day at 10 for the same product and commerce, the
  first by \<^verbatim>\<open>bob\<close> and the second by \<^verbatim>\<open>ana\<close>. The procedure \<^verbatim>\<open>create\<close> has no duplicate
  query, so it leads to such a table.
\<close>

definition w_two :: world where
  "w_two = w_shop\<lparr>posts := [offer_bob 10 98000000, offer_ana 10 98100000]\<rparr>"




text \<open>
  A feed: three offers of the day for one product, at 50, at 30 and, later, at 30 again,
  an offer at 20 from the day before, and one collaboration on the later offer at 30.
\<close>

definition w_feed :: world where
  "w_feed = w0\<lparr>posts := [offer0 ''row-50'' 50 97300000, offer0 ''row-30a'' 30 97400000,
                          offer0 ''row-30b'' 30 97500000, offer0 ''row-old'' 20 97100000],
               colaborations := [\<lparr>colaboration_id = ''c1'', postId = ''row-30b'', userId = ''bob''\<rparr>]\<rparr>"

section \<open>The start of the day\<close>

text \<open>
  The zone \<^verbatim>\<open>UTC-3\<close> is always read, so the start of the day is always a valid value:
  the instant three hours after the last midnight of a clock set three hours back.
\<close>

lemma day_start_UTC3:
  "startOf_day (setZone ''UTC-3'' (DateTime_now w)) =
     DateTime (((clock w - 10800000) div 86400000) * 86400000 + 10800000) (- 180)"
  by (simp add: DateTime_now_def fixed_offset_def digit_val_def)

lemma dayStart_value:
  "dayStart w = Some (((clock w - 10800000) div 86400000) * 86400000 + 10800000)"
  by (simp add: dayStart_def day_start_UTC3)

section \<open>Image promotion\<close>

lemma s3_send_head:
  "s3_send (HeadObjectCommand b k) w =
     ((if s3_rejects w (HeadObjectCommand b k) then Inl ServiceFailure
       else if objects w (b, k) = None then Inl NotFound else Inr HeadObjectOutput),
      w\<lparr>s3_log := s3_log w @ [HeadObjectCommand b k]\<rparr>)"
  by (simp add: s3_send_def Let_def split: option.splits)

lemma s3_send_copy:
  "s3_send (CopyObjectCommand src b k) w =
     (if s3_rejects w (CopyObjectCommand src b k)
      then (Inl ServiceFailure, w\<lparr>s3_log := s3_log w @ [CopyObjectCommand src b k]\<rparr>)
      else case objects w src of
        None \<Rightarrow> (Inl NoSuchKey, w\<lparr>s3_log := s3_log w @ [CopyObjectCommand src b k]\<rparr>)
      | Some v \<Rightarrow>
          if s3_unconfirmed w
          then (Inr (CopyObjectOutput None), w\<lparr>s3_log := s3_log w @ [CopyObjectCommand src b k]\<rparr>)
          else (Inr (CopyObjectOutput (Some v)),
                w\<lparr>s3_log := s3_log w @ [CopyObjectCommand src b k],
                  objects := (objects w)((b, k) \<mapsto> v)\<rparr>))"
  by (simp add: s3_send_def Let_def split: option.splits)

lemma s3_send_delete:
  "s3_send (DeleteObjectCommand b k) w =
     (if s3_rejects w (DeleteObjectCommand b k)
      then (Inl ServiceFailure, w\<lparr>s3_log := s3_log w @ [DeleteObjectCommand b k]\<rparr>)
      else (Inr DeleteObjectOutput,
            w\<lparr>s3_log := s3_log w @ [DeleteObjectCommand b k],
              objects := (objects w)((b, k) := None)\<rparr>))"
  by (simp add: s3_send_def Let_def)

lemma validateS3image_cases:
  "validateS3image e k w =
     (let b = S3_BUCKET_NAME e; pk = IMAGE_PREFIX @ k;
          H = HeadObjectCommand b pk; C = CopyObjectCommand (b, pk) b k;
          D = DeleteObjectCommand b pk
      in case objects w (b, pk) of
           None \<Rightarrow> (Inl (TRPCError BAD_REQUEST (Some ''IMAGE_KEY_NOT_FOUND'')),
                     w\<lparr>s3_log := s3_log w @ [H]\<rparr>)
         | Some v \<Rightarrow>
           if s3_rejects w H
           then (Inl (TRPCError BAD_REQUEST (Some ''IMAGE_KEY_NOT_FOUND'')),
                 w\<lparr>s3_log := s3_log w @ [H]\<rparr>)
           else if s3_rejects w C
           then (Inl (S3ServiceException ServiceFailure), w\<lparr>s3_log := s3_log w @ [H, C]\<rparr>)
           else if s3_unconfirmed w
           then (Inl (TRPCError INTERNAL_SERVER_ERROR (Some ''IMAGE_VALIDATION_ERROR'')),
                 w\<lparr>s3_log := s3_log w @ [H, C]\<rparr>)
           else if s3_rejects w D
           then (Inl (S3ServiceException ServiceFailure),
                 w\<lparr>s3_log := s3_log w @ [H, C, D], objects := (objects w)((b, k) \<mapsto> v)\<rparr>)
           else (Inr (S3_BUCKET_URL e @ ''/'' @ k),
                 w\<lparr>s3_log := s3_log w @ [H, C, D],
                   objects := ((objects w)((b, k) \<mapsto> v))((b, pk) := None)\<rparr>))"
  by (simp add: validateS3image_def s3_send_head s3_send_copy s3_send_delete Let_def IMAGE_PREFIX_def
      split: option.splits)

lemma validateS3image_keeps_store:
  "posts (snd (validateS3image e k w)) = posts w \<and>
   colaborations (snd (validateS3image e k w)) = colaborations w \<and>
   created (snd (validateS3image e k w)) = created w \<and>
   uuid (snd (validateS3image e k w)) = uuid w \<and>
   clock (snd (validateS3image e k w)) = clock w"
  by (simp add: validateS3image_cases Let_def split: option.splits)

lemma publish_keeps_posts_on_error:
  "fst (validateS3image e (input_imageKey inp) w) = Inl err \<Longrightarrow>
   posts (snd (publish e uid inp w)) = posts w"
  using validateS3image_keeps_store [of e "input_imageKey inp" w]
  by (auto simp: publish_def day_start_UTC3 db_colaboration_create_def Let_def
      split: option.splits prod.splits sum.splits)

text \<open>
  C5. When the temporary object \<^verbatim>\<open>pre-\<close>\<open>k\<close> is absent, or the existence check on it is
  refused for any other reason, \<open>validateS3image\<close> fails with \<^verbatim>\<open>BAD_REQUEST\<close>
  \<^verbatim>\<open>IMAGE_KEY_NOT_FOUND\<close>; the only request it has sent is that check, so nothing is copied
  or deleted and the bucket is as before; and neither \<^verbatim>\<open>create\<close> nor \<^verbatim>\<open>publish\<close>, called
  with that image key, adds an offer.
\<close>

theorem promote_missing_image:
  assumes "objects w (S3_BUCKET_NAME e, IMAGE_PREFIX @ k) = None \<or>
           s3_rejects w (HeadObjectCommand (S3_BUCKET_NAME e) (IMAGE_PREFIX @ k))"
    and "input_imageKey inp = k"
  shows "validateS3image e k w =
           (Inl (TRPCError BAD_REQUEST (Some ''IMAGE_KEY_NOT_FOUND'')),
            w\<lparr>s3_log := s3_log w @ [HeadObjectCommand (S3_BUCKET_NAME e) (IMAGE_PREFIX @ k)]\<rparr>) \<and>
         fst (create e uid inp w) = Inl (TRPCError BAD_REQUEST (Some ''IMAGE_KEY_NOT_FOUND'')) \<and>
         posts (snd (create e uid inp w)) = posts w \<and>
         posts (snd (publish e uid inp w)) = posts w \<and>
         posts (snd (create_procedure e uid inp w)) = posts w \<and>
         posts (snd (publish_procedure e uid inp w)) = posts w"
proof -
  let ?bad = "TRPCError BAD_REQUEST (Some ''IMAGE_KEY_NOT_FOUND'')"
  let ?H = "HeadObjectCommand (S3_BUCKET_NAME e) (IMAGE_PREFIX @ k)"
  have v: "validateS3image e k w = (Inl ?bad, w\<lparr>s3_log := s3_log w @ [?H]\<rparr>)"
    using assms(1) by (auto simp: validateS3image_cases Let_def split: option.splits)
  have c: "create e uid inp w = (Inl ?bad, w\<lparr>s3_log := s3_log w @ [?H]\<rparr>)"
    using v assms(2) by (simp add: create_def)
  have p: "posts (snd (publish e uid inp w)) = posts w"
    using v assms(2) publish_keeps_posts_on_error [of e inp w ?bad uid] by simp
  show ?thesis
    using v c p by (simp add: create_procedure_def publish_procedure_def)
qed

theorem promote_missing_image_witness:
  "objects w0 (S3_BUCKET_NAME env0, IMAGE_PREFIX @ ''xyz'') = None \<and>
   validateS3image env0 ''xyz'' w0 =
     (Inl (TRPCError BAD_REQUEST (Some ''IMAGE_KEY_NOT_FOUND'')),
      w0\<lparr>s3_log := [HeadObjectCommand ''precios'' ''pre-xyz'']\<rparr>) \<and>
   posts (snd (publish_procedure env0 ''ana'' (inp0\<lparr>input_imageKey := ''xyz''\<rparr>) w0)) = []"
  using promote_missing_image [of w0 env0 "''xyz''" "inp0\<lparr>input_imageKey := ''xyz''\<rparr>" "''ana''"]
  by (simp add: w0_def env0_def IMAGE_PREFIX_def)

text \<open>
  C6. When the temporary object exists and the existence check and the copy are
  answered, but the copy's answer carries no \<^verbatim>\<open>CopyObjectResult\<close>, \<open>validateS3image\<close>
  fails with \<^verbatim>\<open>INTERNAL_SERVER_ERROR\<close> \<^verbatim>\<open>IMAGE_VALIDATION_ERROR\<close>; it has sent the check
  and the copy and no delete, and the temporary object is still in place.
\<close>

theorem promote_unconfirmed_copy:
  assumes "objects w (S3_BUCKET_NAME e, IMAGE_PREFIX @ k) = Some v"
    and "\<not> s3_rejects w (HeadObjectCommand (S3_BUCKET_NAME e) (IMAGE_PREFIX @ k))"
    and "\<not> s3_rejects w (CopyObjectCommand (S3_BUCKET_NAME e, IMAGE_PREFIX @ k)
                            (S3_BUCKET_NAME e) k)"
    and "s3_unconfirmed w"
  shows "validateS3image e k w =
           (Inl (TRPCError INTERNAL_SERVER_ERROR (Some ''IMAGE_VALIDATION_ERROR'')),
            w\<lparr>s3_log := s3_log w @
                 [HeadObjectCommand (S3_BUCKET_NAME e) (IMAGE_PREFIX @ k),
                  CopyObjectCommand (S3_BUCKET_NAME e, IMAGE_PREFIX @ k) (S3_BUCKET_NAME e) k]\<rparr>) \<and>
         objects (snd (validateS3image e k w)) (S3_BUCKET_NAME e, IMAGE_PREFIX @ k) = Some v"
  using assms by (simp add: validateS3image_cases Let_def)

theorem promote_unconfirmed_copy_witness:
  "objects (w0\<lparr>s3_unconfirmed := True\<rparr>) (S3_BUCKET_NAME env0, IMAGE_PREFIX @ ''abc'') = Some ''jpeg'' \<and>
   s3_unconfirmed (w0\<lparr>s3_unconfirmed := True\<rparr>) \<and>
   fst (validateS3image env0 ''abc'' (w0\<lparr>s3_unconfirmed := True\<rparr>)) =
     Inl (TRPCError INTERNAL_SERVER_ERROR (Some ''IMAGE_VALIDATION_ERROR'')) \<and>
   objects (snd (validateS3image env0 ''abc'' (w0\<lparr>s3_unconfirmed := True\<rparr>))) (''precios'', ''pre-abc'')
     = Some ''jpeg''"
  using promote_unconfirmed_copy [of "w0\<lparr>s3_unconfirmed := True\<rparr>" env0 "''abc''" "''jpeg''"]
  by (simp add: w0_def env0_def IMAGE_PREFIX_def)

text \<open>
  C7, as the code has it. For a temporary object that exists and whose copy is
  confirmed, the permanent key \<open>k\<close> holds the object afterwards. When the delete is
  answered, no object is left at \<^verbatim>\<open>pre-\<close>\<open>k\<close> and the result is the base URL, a slash
  and \<open>k\<close>. The delete is awaited like the other requests: when it is refused,
  \<open>validateS3image\<close> fails with the storage client's error, and both objects exist.
\<close>

theorem promote_moves_image:
  assumes "objects w (S3_BUCKET_NAME e, IMAGE_PREFIX @ k) = Some v"
    and "\<not> s3_rejects w (HeadObjectCommand (S3_BUCKET_NAME e) (IMAGE_PREFIX @ k))"
    and "\<not> s3_rejects w (CopyObjectCommand (S3_BUCKET_NAME e, IMAGE_PREFIX @ k)
                            (S3_BUCKET_NAME e) k)"
    and "\<not> s3_unconfirmed w"
  shows "objects (snd (validateS3image e k w)) (S3_BUCKET_NAME e, k) = Some v \<and>
         (if s3_rejects w (DeleteObjectCommand (S3_BUCKET_NAME e) (IMAGE_PREFIX @ k))
          then fst (validateS3image e k w) = Inl (S3ServiceException ServiceFailure) \<and>
               objects (snd (validateS3image e k w)) (S3_BUCKET_NAME e, IMAGE_PREFIX @ k) = Some v
          else fst (validateS3image e k w) = Inr (S3_BUCKET_URL e @ ''/'' @ k) \<and>
               objects (snd (validateS3image e k w)) (S3_BUCKET_NAME e, IMAGE_PREFIX @ k) = None)"
  using assms by (simp add: validateS3image_cases Let_def IMAGE_PREFIX_def)

theorem promote_moves_image_witness:
  "objects w0 (S3_BUCKET_NAME env0, IMAGE_PREFIX @ ''abc'') = Some ''jpeg'' \<and>
   fst (validateS3image env0 ''abc'' w0) = Inr ''https://cdn.example/abc'' \<and>
   objects (snd (validateS3image env0 ''abc'' w0)) (''precios'', ''abc'') = Some ''jpeg'' \<and>
   objects (snd (validateS3image env0 ''abc'' w0)) (''precios'', ''pre-abc'') = None"
  using promote_moves_image [of w0 env0 "''abc''" "''jpeg''"]
  by (simp add: w0_def env0_def IMAGE_PREFIX_def)

text \<open>
  C7 as stated says that a failed delete is not surfaced. In \<open>w_delete_refused\<close> the
  temporary object exists and the copy is confirmed, and \<open>validateS3image\<close> fails.
\<close>

theorem promote_delete_failure_counterexample:
  "objects w_delete_refused (''precios'', ''pre-abc'') = Some ''jpeg'' \<and>
   fst (s3_send (CopyObjectCommand (''precios'', ''pre-abc'') ''precios'' ''abc'') w_delete_refused)
     = Inr (CopyObjectOutput (Some ''jpeg'')) \<and>
   fst (validateS3image env0 ''abc'' w_delete_refused) = Inl (S3ServiceException ServiceFailure) \<and>
   fst (validateS3image env0 ''abc'' w_delete_refused) \<noteq> Inr ''https://cdn.example/abc''"
  by (simp add: validateS3image_cases s3_send_copy Let_def w_delete_refused_def w0_def env0_def
      IMAGE_PREFIX_def)

section \<open>Publishing\<close>

lemma publish_where_Some:
  "publish_where w (Some d) inp = duplicate_of w d inp"
  by (rule ext) (simp add: publish_where_def)

lemma publish_found:
  assumes "dayStart w = Some d"
    and "find (duplicate_of w d inp) (posts w) = Some existentPost"
  shows "publish e uid inp w =
     (if authorId existentPost = uid then (Inr Nothing, w)
      else if uid \<in> set (users w)
      then (Inr (Colaboration \<lparr>colaboration_id = uuid w (created w),
                                 postId = post_id existentPost, userId = uid\<rparr>),
            w\<lparr>colaborations := colaborations w @
                 [\<lparr>colaboration_id = uuid w (created w),
                   postId = post_id existentPost, userId = uid\<rparr>],
              created := Suc (created w)\<rparr>)
      else (Inl (PrismaClientKnownRequestError ''P2025''), w))"
proof -
  have d: "d = ((clock w - 10800000) div 86400000) * 86400000 + 10800000"
    using assms(1) by (simp add: dayStart_value)
  have "existentPost \<in> set (posts w)"
    using assms(2) by (auto simp: find_Some_iff in_set_conv_nth)
  then have ex: "list_ex (\<lambda>p. post_id p = post_id existentPost) (posts w)"
    by (auto simp: list_ex_iff)
  show ?thesis
    using assms(2) ex
    by (simp add: publish_def day_start_UTC3 d db_post_findFirst_def publish_where_Some
        db_colaboration_create_def Let_def)
qed

lemma publish_not_found:
  assumes "dayStart w = Some d"
    and "find (duplicate_of w d inp) (posts w) = None"
  shows "publish e uid inp w =
     (case validateS3image e (input_imageKey inp) w of
        (Inl err, w1) \<Rightarrow> (Inl err, w1)
      | (Inr imageUrl, w1) \<Rightarrow>
          if list_ex (\<lambda>q. product_id q = input_productId inp) (products w) \<and>
             input_commerceId inp \<in> set (commerces w) \<and> uid \<in> set (users w)
          then
            (Inr (Post \<lparr>post_id = uuid w (created w), productId = input_productId inp,
                        commerceId = input_commerceId inp,
                        price = price_column w (Prisma_Decimal w (input_price inp)),
                        publishDate = clock w, image = imageUrl, authorId = uid\<rparr>),
             w1\<lparr>posts := posts w @
                   [\<lparr>post_id = uuid w (created w), productId = input_productId inp,
                     commerceId = input_commerceId inp,
                     price = price_column w (Prisma_Decimal w (input_price inp)),
                     publishDate = clock w, image = imageUrl, authorId = uid\<rparr>],
                created := Suc (created w)\<rparr>)
          else (Inl (PrismaClientKnownRequestError ''P2025''), w1))"
proof -
  have d: "d = ((clock w - 10800000) div 86400000) * 86400000 + 10800000"
    using assms(1) by (simp add: dayStart_value)
  obtain r w1 where v: "validateS3image e (input_imageKey inp) w = (r, w1)"
    by (cases "validateS3image e (input_imageKey inp) w")
  have keep: "posts w1 = posts w" "created w1 = created w" "uuid w1 = uuid w"
    "clock w1 = clock w" "products w1 = products w" "commerces w1 = commerces w"
    "users w1 = users w" "Prisma_Decimal w1 = Prisma_Decimal w"
    "price_column w1 = price_column w"
    using v by (auto simp: validateS3image_cases Let_def split: option.splits if_splits)
  show ?thesis
    using assms(2) keep
    by (cases r)
      (simp_all add: publish_def day_start_UTC3 d db_post_findFirst_def publish_where_Some
        db_post_create_def Let_def v)
qed

lemma find_duplicate_None:
  "(\<forall>p \<in> set (posts w). \<not> duplicate_of w d inp p) \<Longrightarrow>
   find (duplicate_of w d inp) (posts w) = None"
  by (simp add: find_None_iff)

lemma find_duplicate_Some:
  assumes "p \<in> set (posts w)" and "duplicate_of w d inp p"
  obtains q where "find (duplicate_of w d inp) (posts w) = Some q"
    and "q \<in> set (posts w)" and "duplicate_of w d inp q"
proof -
  have "find (duplicate_of w d inp) (posts w) \<noteq> None"
    using assms by (auto simp: find_None_iff)
  then obtain q where q: "find (duplicate_of w d inp) (posts w) = Some q"
    by auto
  then have "q \<in> set (posts w)" "duplicate_of w d inp q"
    by (auto simp: find_Some_iff in_set_conv_nth)
  with q show ?thesis by (rule that)
qed

text \<open>
  C1, as the code has it. Let the input pass the schema and let the duplicate query
  select no offer. Then \<^verbatim>\<open>publish\<close> promotes the image first. If promotion fails,
  \<^verbatim>\<open>publish\<close> fails with the same error in the world promotion left, and the offers are
  as before. If promotion returns a URL, the temporary object existed, it is now under
  the image key and gone from the prefixed key. Then, when the store holds the product,
  the commerce and the requesting user, \<^verbatim>\<open>publish\<close> returns one new offer, appended to
  the offers, with that URL, the input's product and commerce, the requesting user as
  author and as price what the column keeps of the decimal of the input's number. When
  one of the three rows is absent, the store refuses the creation and \<^verbatim>\<open>publish\<close> fails
  with the store's error after the image was promoted; no offer is created.
\<close>

theorem publish_new_offer:
  assumes "publish_schema inp" and "dayStart w = Some d"
    and "\<forall>p \<in> set (posts w). \<not> duplicate_of w d inp p"
  shows "case validateS3image e (input_imageKey inp) w of
           (Inl err, w1) \<Rightarrow>
             publish_procedure e uid inp w = (Inl err, w1) \<and> posts w1 = posts w
         | (Inr imageUrl, w1) \<Rightarrow>
             imageUrl = S3_BUCKET_URL e @ ''/'' @ input_imageKey inp \<and>
             objects w (S3_BUCKET_NAME e, IMAGE_PREFIX @ input_imageKey inp) \<noteq> None \<and>
             objects w1 (S3_BUCKET_NAME e, input_imageKey inp) =
               objects w (S3_BUCKET_NAME e, IMAGE_PREFIX @ input_imageKey inp) \<and>
             objects w1 (S3_BUCKET_NAME e, IMAGE_PREFIX @ input_imageKey inp) = None \<and>
             posts w1 = posts w \<and>
             (if input_productId inp \<in> product_id ` set (products w) \<and>
                 input_commerceId inp \<in> set (commerces w) \<and> uid \<in> set (users w)
              then publish_procedure e uid inp w =
                (Inr (Post \<lparr>post_id = uuid w (created w), productId = input_productId inp,
                            commerceId = input_commerceId inp,
                            price = price_column w (Prisma_Decimal w (input_price inp)),
                            publishDate = clock w, image = imageUrl, authorId = uid\<rparr>),
                 w1\<lparr>posts := posts w @
                       [\<lparr>post_id = uuid w (created w), productId = input_productId inp,
                         commerceId = input_commerceId inp,
                         price = price_column w (Prisma_Decimal w (input_price inp)),
                         publishDate = clock w, image = imageUrl, authorId = uid\<rparr>],
                    created := Suc (created w)\<rparr>)
              else publish_procedure e uid inp w =
                     (Inl (PrismaClientKnownRequestError ''P2025''), w1))"
proof -
  have none: "find (duplicate_of w d inp) (posts w) = None"
    using assms(3) by (rule find_duplicate_None)
  have pub: "publish_procedure e uid inp w = publish e uid inp w"
    using assms(1) by (simp add: publish_procedure_def)
  have ex: "list_ex (\<lambda>q. product_id q = input_productId inp) (products w) \<longleftrightarrow>
            input_productId inp \<in> product_id ` set (products w)"
    by (auto simp: list_ex_iff intro: rev_image_eqI)
  obtain r w1 where v: "validateS3image e (input_imageKey inp) w = (r, w1)"
    by (cases "validateS3image e (input_imageKey inp) w")
  have keep: "posts w1 = posts w"
    using validateS3image_keeps_store [of e "input_imageKey inp" w] v by simp
  show ?thesis
  proof (cases r)
    case (Inl err)
    then show ?thesis
      using v keep by (simp add: pub publish_not_found [OF assms(2) none])
  next
    case (Inr imageUrl)
    have stor: "imageUrl = S3_BUCKET_URL e @ ''/'' @ input_imageKey inp \<and>
           objects w (S3_BUCKET_NAME e, IMAGE_PREFIX @ input_imageKey inp) \<noteq> None \<and>
           objects w1 (S3_BUCKET_NAME e, input_imageKey inp) =
             objects w (S3_BUCKET_NAME e, IMAGE_PREFIX @ input_imageKey inp) \<and>
           objects w1 (S3_BUCKET_NAME e, IMAGE_PREFIX @ input_imageKey inp) = None"
      using v Inr
      by (auto simp: validateS3image_cases Let_def IMAGE_PREFIX_def
          split: option.splits if_splits)
    show ?thesis
      using v Inr keep stor by (simp add: pub publish_not_found [OF assms(2) none] ex)
  qed
qed

theorem publish_new_offer_witness:
  "publish_schema inp0 \<and> dayStart w_other = Some 97200000 \<and>
   posts w_other = [offer_ana 12 98000000, offer0 ''row-old'' 10 97100000] \<and>
   fst (publish_procedure env0 ''bob'' inp0 w_other) =
     Inr (Post \<lparr>post_id = ''row-'', productId = ''11111111-1111-4111-8111-111111111111'',
                 commerceId = ''22222222-2222-4222-8222-222222222222'', price = 10,
                 publishDate = 100000000, image = ''https://cdn.example/abc'',
                 authorId = ''bob''\<rparr>) \<and>
   length (posts (snd (publish_procedure env0 ''bob'' inp0 w_other))) = 3"
proof -
  have s: "publish_schema inp0"
    by (simp add: publish_schema_def is_uuid_def is_hex_def inp0_def)
  have d: "dayStart w_other = Some 97200000"
    by (simp add: dayStart_value w_other_def w_shop_def w0_def)
  have n: "\<forall>p \<in> set (posts w_other). \<not> duplicate_of w_other 97200000 inp0 p"
    by (simp add: w_other_def w_shop_def w0_def offer_ana_def offer0_def inp0_def)
  have v: "validateS3image env0 (input_imageKey inp0) w_other =
     (Inr ''https://cdn.example/abc'',
      w_other\<lparr>s3_log := [HeadObjectCommand ''precios'' ''pre-abc'',
                           CopyObjectCommand (''precios'', ''pre-abc'') ''precios'' ''abc'',
                           DeleteObjectCommand ''precios'' ''pre-abc''],
               objects := [(''precios'', ''abc'') \<mapsto> ''jpeg'']\<rparr>)"
    by (simp add: validateS3image_cases Let_def w_other_def w_shop_def w0_def env0_def inp0_def
        IMAGE_PREFIX_def fun_upd_twist)
  have "fst (publish_procedure env0 ''bob'' inp0 w_other) =
     Inr (Post \<lparr>post_id = ''row-'', productId = ''11111111-1111-4111-8111-111111111111'',
                 commerceId = ''22222222-2222-4222-8222-222222222222'', price = 10,
                 publishDate = 100000000, image = ''https://cdn.example/abc'',
                 authorId = ''bob''\<rparr>) \<and>
   length (posts (snd (publish_procedure env0 ''bob'' inp0 w_other))) = 3"
    using publish_new_offer [OF s d n, of env0 "''bob''"] unfolding v
    by (simp add: w_other_def w_shop_def w0_def inp0_def)
  then show ?thesis
    using s d by (simp add: w_other_def)
qed

text \<open>
  C1 as stated promises a new offer for every input that passes the schema. In \<open>w0\<close>
  the store has no product with the identifier of \<open>inp0\<close>: the image is promoted, the
  creation is refused, and there is no offer.
\<close>

theorem publish_unknown_product_counterexample:
  "publish_schema inp0 \<and> posts w0 = [] \<and>
   fst (publish_procedure env0 ''bob'' inp0 w0) = Inl (PrismaClientKnownRequestError ''P2025'') \<and>
   posts (snd (publish_procedure env0 ''bob'' inp0 w0)) = [] \<and>
   objects (snd (publish_procedure env0 ''bob'' inp0 w0)) (''precios'', ''abc'') = Some ''jpeg''"
proof -
  have s: "publish_schema inp0"
    by (simp add: publish_schema_def is_uuid_def is_hex_def inp0_def)
  have d: "dayStart w0 = Some 97200000"
    by (simp add: dayStart_value w0_def)
  have n: "find (duplicate_of w0 97200000 inp0) (posts w0) = None"
    by (simp add: w0_def)
  show ?thesis
    unfolding publish_procedure_def if_P [OF s] publish_not_found [OF d n]
    using s by (simp add: validateS3image_cases Let_def w0_def env0_def inp0_def IMAGE_PREFIX_def)
qed

text \<open>
  C2, as the code has it. Let the input pass the schema, let the duplicate query select
  some offer, and let no offer it selects be the requesting user's. Then the offer found
  is one of them, and \<^verbatim>\<open>publish\<close> returns one new collaboration of the requesting user on
  that offer's id, appended to the collaborations; the offers, the bucket and the log of
  storage requests are as before, so no offer is created and no image is promoted. (The
  collaboration is created with \<^verbatim>\<open>connect\<close> to the user; were the user's row absent, the
  store would refuse and nothing would be created.)
\<close>

theorem publish_collaboration:
  assumes "publish_schema inp" and "dayStart w = Some d"
    and "\<exists>p \<in> set (posts w). duplicate_of w d inp p"
    and "\<forall>p \<in> set (posts w). duplicate_of w d inp p \<longrightarrow> authorId p \<noteq> uid"
  shows "\<exists>existentPost \<in> set (posts w).
           duplicate_of w d inp existentPost \<and>
           (let c = \<lparr>colaboration_id = uuid w (created w), postId = post_id existentPost,
                     userId = uid\<rparr>;
                w' = w\<lparr>colaborations := colaborations w @ [c], created := Suc (created w)\<rparr>
            in if uid \<in> set (users w)
               then publish_procedure e uid inp w = (Inr (Colaboration c), w') \<and>
                    posts w' = posts w \<and> objects w' = objects w \<and> s3_log w' = s3_log w
               else publish_procedure e uid inp w =
                      (Inl (PrismaClientKnownRequestError ''P2025''), w))"
proof -
  obtain p where "p \<in> set (posts w)" "duplicate_of w d inp p"
    using assms(3) by blast
  then obtain q where q: "find (duplicate_of w d inp) (posts w) = Some q"
      "q \<in> set (posts w)" "duplicate_of w d inp q"
    by (rule find_duplicate_Some)
  have a: "authorId q \<noteq> uid"
    using assms(4) q(2,3) by blast
  have "let c = \<lparr>colaboration_id = uuid w (created w), postId = post_id q, userId = uid\<rparr>;
            w' = w\<lparr>colaborations := colaborations w @ [c], created := Suc (created w)\<rparr>
        in if uid \<in> set (users w)
           then publish_procedure e uid inp w = (Inr (Colaboration c), w') \<and>
                posts w' = posts w \<and> objects w' = objects w \<and> s3_log w' = s3_log w
           else publish_procedure e uid inp w =
                  (Inl (PrismaClientKnownRequestError ''P2025''), w)"
    using assms(1) a
    by (simp add: publish_procedure_def publish_found [OF assms(2) q(1)] Let_def)
  with q(2,3) show ?thesis by blast
qed

theorem publish_collaboration_witness:
  "publish_schema inp0 \<and> dayStart (w_ana 10) = Some 97200000 \<and>
   posts (w_ana 10) = [offer_ana 10 98000000] \<and>
   publish_procedure env0 ''bob'' inp0 (w_ana 10) =
     (Inr (Colaboration \<lparr>colaboration_id = ''row-'',
                          postId = ''aaaaaaaa-aaaa-4aaa-8aaa-aaaaaaaaaaaa'', userId = ''bob''\<rparr>),
      (w_ana 10)\<lparr>colaborations :=
                    [\<lparr>colaboration_id = ''row-'',
                      postId = ''aaaaaaaa-aaaa-4aaa-8aaa-aaaaaaaaaaaa'', userId = ''bob''\<rparr>],
                  created := 1\<rparr>)"
proof -
  have s: "publish_schema inp0"
    by (simp add: publish_schema_def is_uuid_def is_hex_def inp0_def)
  have d: "dayStart (w_ana 10) = Some 97200000"
    by (simp add: dayStart_value w_ana_def w_shop_def w0_def)
  have p: "posts (w_ana 10) = [offer_ana 10 98000000]"
    by (simp add: w_ana_def)
  have m: "duplicate_of (w_ana 10) 97200000 inp0 (offer_ana 10 98000000)"
      "authorId (offer_ana 10 98000000) \<noteq> ''bob''"
      "post_id (offer_ana 10 98000000) = ''aaaaaaaa-aaaa-4aaa-8aaa-aaaaaaaaaaaa''"
    by (simp_all add: w_ana_def w_shop_def w0_def offer_ana_def offer0_def inp0_def)
  have u: "''bob'' \<in> set (users (w_ana 10))" "uuid (w_ana 10) 0 = ''row-''"
      "created (w_ana 10) = 0" "colaborations (w_ana 10) = []"
    by (simp_all add: w_ana_def w_shop_def w0_def)
  have e: "\<exists>p \<in> set (posts (w_ana 10)). duplicate_of (w_ana 10) 97200000 inp0 p"
    unfolding p using m(1) by simp
  have a: "\<forall>p \<in> set (posts (w_ana 10)).
             duplicate_of (w_ana 10) 97200000 inp0 p \<longrightarrow> authorId p \<noteq> ''bob''"
    unfolding p using m(2) by simp
  show ?thesis
    using publish_collaboration [OF s d e a, of env0] s d
    unfolding p by (simp add: m(3) u Let_def)
qed

text \<open>
  C2 as stated asks only for some selected offer by another author. In \<open>w_two\<close> the
  offer of \<^verbatim>\<open>ana\<close> is selected and is not \<^verbatim>\<open>bob\<close>'s, yet the query finds \<^verbatim>\<open>bob\<close>'s own offer
  first: \<^verbatim>\<open>publish\<close> by \<^verbatim>\<open>bob\<close> returns nothing and creates no collaboration.
\<close>

theorem publish_own_duplicate_counterexample:
  "publish_schema inp0 \<and> dayStart w_two = Some 97200000 \<and>
   posts w_two = [offer_bob 10 98000000, offer_ana 10 98100000] \<and>
   duplicate_of w_two 97200000 inp0 (offer_ana 10 98100000) \<and>
   authorId (offer_ana 10 98100000) \<noteq> ''bob'' \<and>
   publish_procedure env0 ''bob'' inp0 w_two = (Inr Nothing, w_two)"
proof -
  have s: "publish_schema inp0"
    by (simp add: publish_schema_def is_uuid_def is_hex_def inp0_def)
  have d: "dayStart w_two = Some 97200000"
    by (simp add: dayStart_value w_two_def w_shop_def w0_def)
  have f: "find (duplicate_of w_two 97200000 inp0) (posts w_two) = Some (offer_bob 10 98000000)"
    by (simp add: w_two_def w_shop_def w0_def offer_bob_def offer0_def inp0_def)
  have r: "publish_procedure env0 ''bob'' inp0 w_two = (Inr Nothing, w_two)"
    unfolding publish_procedure_def if_P [OF s] publish_found [OF d f]
    by (simp add: offer_bob_def)
  have m: "posts w_two = [offer_bob 10 98000000, offer_ana 10 98100000]"
      "duplicate_of w_two 97200000 inp0 (offer_ana 10 98100000)"
      "authorId (offer_ana 10 98100000) \<noteq> ''bob''"
    by (simp_all add: w_two_def w_shop_def w0_def offer_ana_def offer0_def inp0_def)
  show ?thesis
    using s d r m by simp
qed

text \<open>
  C3, as the code has it. Let the input pass the schema, let the duplicate query select
  some offer, and let every offer it selects be the requesting user's. Then \<^verbatim>\<open>publish\<close>
  returns nothing and leaves the world exactly as it was: no offer, no collaboration, no
  request to object storage.
\<close>

theorem publish_same_author:
  assumes "publish_schema inp" and "dayStart w = Some d"
    and "\<exists>p \<in> set (posts w). duplicate_of w d inp p"
    and "\<forall>p \<in> set (posts w). duplicate_of w d inp p \<longrightarrow> authorId p = uid"
  shows "publish_procedure e uid inp w = (Inr Nothing, w)"
proof -
  obtain p where "p \<in> set (posts w)" "duplicate_of w d inp p"
    using assms(3) by blast
  then obtain q where q: "find (duplicate_of w d inp) (posts w) = Some q"
      "q \<in> set (posts w)" "duplicate_of w d inp q"
    by (rule find_duplicate_Some)
  have "authorId q = uid"
    using assms(4) q(2,3) by blast
  then show ?thesis
    using assms(1) by (simp add: publish_procedure_def publish_found [OF assms(2) q(1)])
qed

theorem publish_same_author_witness:
  "publish_schema inp0 \<and> dayStart (w_ana 10) = Some 97200000 \<and>
   posts (w_ana 10) = [offer_ana 10 98000000] \<and>
   duplicate_of (w_ana 10) 97200000 inp0 (offer_ana 10 98000000) \<and>
   authorId (offer_ana 10 98000000) = ''ana'' \<and>
   publish_procedure env0 ''ana'' inp0 (w_ana 10) = (Inr Nothing, w_ana 10)"
proof -
  have s: "publish_schema inp0"
    by (simp add: publish_schema_def is_uuid_def is_hex_def inp0_def)
  have d: "dayStart (w_ana 10) = Some 97200000"
    by (simp add: dayStart_value w_ana_def w_shop_def w0_def)
  have p: "posts (w_ana 10) = [offer_ana 10 98000000]"
    by (simp add: w_ana_def)
  have m: "duplicate_of (w_ana 10) 97200000 inp0 (offer_ana 10 98000000)"
      "authorId (offer_ana 10 98000000) = ''ana''"
    by (simp_all add: w_ana_def w_shop_def w0_def offer_ana_def offer0_def inp0_def)
  have e: "\<exists>p \<in> set (posts (w_ana 10)). duplicate_of (w_ana 10) 97200000 inp0 p"
    unfolding p using m(1) by simp
  have a: "\<forall>p \<in> set (posts (w_ana 10)).
             duplicate_of (w_ana 10) 97200000 inp0 p \<longrightarrow> authorId p = ''ana''"
    unfolding p using m(2) by simp
  show ?thesis
    using publish_same_author [OF s d e a, of env0] s d p m by simp
qed

text \<open>
  C3 as stated asks only for some selected offer by the requesting user. In \<open>w_two\<close>
  the offer of \<^verbatim>\<open>ana\<close> is selected, yet the query finds the offer of \<^verbatim>\<open>bob\<close> first:
  \<^verbatim>\<open>publish\<close> by \<^verbatim>\<open>ana\<close> creates a collaboration on it.
\<close>

theorem publish_other_duplicate_counterexample:
  "publish_schema inp0 \<and> dayStart w_two = Some 97200000 \<and>
   posts w_two = [offer_bob 10 98000000, offer_ana 10 98100000] \<and>
   duplicate_of w_two 97200000 inp0 (offer_ana 10 98100000) \<and>
   authorId (offer_ana 10 98100000) = ''ana'' \<and>
   fst (publish_procedure env0 ''ana'' inp0 w_two) =
     Inr (Colaboration \<lparr>colaboration_id = ''row-'',
                         postId = ''bbbbbbbb-bbbb-4bbb-8bbb-bbbbbbbbbbbb'', userId = ''ana''\<rparr>) \<and>
   length (colaborations (snd (publish_procedure env0 ''ana'' inp0 w_two))) = 1"
proof -
  have s: "publish_schema inp0"
    by (simp add: publish_schema_def is_uuid_def is_hex_def inp0_def)
  have d: "dayStart w_two = Some 97200000"
    by (simp add: dayStart_value w_two_def w_shop_def w0_def)
  have f: "find (duplicate_of w_two 97200000 inp0) (posts w_two) = Some (offer_bob 10 98000000)"
    by (simp add: w_two_def w_shop_def w0_def offer_bob_def offer0_def inp0_def)
  have r: "fst (publish_procedure env0 ''ana'' inp0 w_two) =
     Inr (Colaboration \<lparr>colaboration_id = ''row-'',
                         postId = ''bbbbbbbb-bbbb-4bbb-8bbb-bbbbbbbbbbbb'', userId = ''ana''\<rparr>) \<and>
     length (colaborations (snd (publish_procedure env0 ''ana'' inp0 w_two))) = 1"
    unfolding publish_procedure_def if_P [OF s] publish_found [OF d f]
    by (simp add: offer_bob_def offer0_def w_two_def w_shop_def w0_def)
  have m: "posts w_two = [offer_bob 10 98000000, offer_ana 10 98100000]"
      "duplicate_of w_two 97200000 inp0 (offer_ana 10 98100000)"
      "authorId (offer_ana 10 98100000) = ''ana''"
    by (simp_all add: w_two_def w_shop_def w0_def offer_ana_def offer0_def inp0_def)
  show ?thesis
    using s d r m by simp
qed




section \<open>Deleting an own offer\<close>

lemma find_unique_key:
  "distinct (map f xs) \<Longrightarrow> p \<in> set xs \<Longrightarrow> find (\<lambda>q. f q = f p) xs = Some p"
  by (induction xs) auto

text \<open>An id of any other shape does not reach the handler.\<close>

lemma deleteOwnPost_procedure_invalid:
  "\<not> is_uuid i \<Longrightarrow> deleteOwnPost_procedure u i w = (Inl (TRPCError BAD_REQUEST None), w)"
  by (simp add: deleteOwnPost_procedure_def)

text \<open>
  C8. For an id of UUID shape, in a table whose keys are unique: when no offer has the
  id, \<^verbatim>\<open>deleteOwnPost\<close> fails with \<^verbatim>\<open>NOT_FOUND\<close>; when the offer with the id has another
  author, it fails with \<^verbatim>\<open>FORBIDDEN\<close> and the world is as before; otherwise it returns the
  offer and the table holds every other offer and no longer this one.
\<close>

theorem deleteOwnPost_outcomes:
  assumes "distinct (map post_id (posts w))" and "is_uuid i"
  shows "((\<forall>p \<in> set (posts w). post_id p \<noteq> i) \<longrightarrow>
            deleteOwnPost_procedure u i w = (Inl (TRPCError NOT_FOUND None), w)) \<and>
         (\<forall>p \<in> set (posts w). post_id p = i \<longrightarrow>
            (if authorId p \<noteq> u
             then deleteOwnPost_procedure u i w =
                    (Inl (TRPCError FORBIDDEN (Some (''No eres el autor de la publicaci'' @
                            [CHR 0xC3, CHR 0xB3] @ ''n''))), w)
             else deleteOwnPost_procedure u i w =
                    (Inr p, w\<lparr>posts := filter (\<lambda>q. post_id q \<noteq> i) (posts w)\<rparr>) \<and>
                  set (posts (snd (deleteOwnPost_procedure u i w))) = set (posts w) - {p}))"
proof (intro conjI impI ballI)
  assume "\<forall>p \<in> set (posts w). post_id p \<noteq> i"
  then have "find (\<lambda>p. post_id p = i) (posts w) = None"
    by (simp add: find_None_iff)
  then show "deleteOwnPost_procedure u i w = (Inl (TRPCError NOT_FOUND None), w)"
    using assms(2) by (simp add: deleteOwnPost_procedure_def deleteOwnPost_def db_post_findUnique_def)
next
  fix p assume p: "p \<in> set (posts w)" and i: "post_id p = i"
  have f: "find (\<lambda>q. post_id q = i) (posts w) = Some p"
    using find_unique_key [OF assms(1) p] i by simp
  have only: "\<And>q. q \<in> set (posts w) \<Longrightarrow> post_id q = i \<Longrightarrow> q = p"
    using assms(1) p i by (metis distinct_map inj_on_def)
  have s: "{x \<in> set (posts w). post_id x \<noteq> i} = set (posts w) - {p}"
    using only i by auto
  show "if authorId p \<noteq> u
        then deleteOwnPost_procedure u i w =
               (Inl (TRPCError FORBIDDEN (Some (''No eres el autor de la publicaci'' @
                       [CHR 0xC3, CHR 0xB3] @ ''n''))), w)
        else deleteOwnPost_procedure u i w =
               (Inr p, w\<lparr>posts := filter (\<lambda>q. post_id q \<noteq> i) (posts w)\<rparr>) \<and>
             set (posts (snd (deleteOwnPost_procedure u i w))) = set (posts w) - {p}"
    using f s assms(2)
    by (simp add: deleteOwnPost_procedure_def deleteOwnPost_def db_post_findUnique_def
        db_post_delete_def)
qed

theorem deleteOwnPost_outcomes_witness:
  "distinct (map post_id (posts (w_ana 10))) \<and>
   is_uuid ''aaaaaaaa-aaaa-4aaa-8aaa-aaaaaaaaaaaa'' \<and>
   is_uuid ''cccccccc-cccc-4ccc-8ccc-cccccccccccc'' \<and>
   deleteOwnPost_procedure ''ana'' ''cccccccc-cccc-4ccc-8ccc-cccccccccccc'' (w_ana 10) =
     (Inl (TRPCError NOT_FOUND None), w_ana 10) \<and>
   deleteOwnPost_procedure ''bob'' ''aaaaaaaa-aaaa-4aaa-8aaa-aaaaaaaaaaaa'' (w_ana 10) =
     (Inl (TRPCError FORBIDDEN
            (Some (''No eres el autor de la publicaci'' @ [CHR 0xC3, CHR 0xB3] @ ''n''))),
      w_ana 10) \<and>
   deleteOwnPost_procedure ''ana'' ''aaaaaaaa-aaaa-4aaa-8aaa-aaaaaaaaaaaa'' (w_ana 10) =
     (Inr (offer_ana 10 98000000), (w_ana 10)\<lparr>posts := []\<rparr>)"
proof -
  have u: "is_uuid ''aaaaaaaa-aaaa-4aaa-8aaa-aaaaaaaaaaaa''"
      "is_uuid ''cccccccc-cccc-4ccc-8ccc-cccccccccccc''"
    by (simp_all add: is_uuid_def is_hex_def)
  have p: "posts (w_ana 10) = [offer_ana 10 98000000]"
      "post_id (offer_ana 10 98000000) = ''aaaaaaaa-aaaa-4aaa-8aaa-aaaaaaaaaaaa''"
      "authorId (offer_ana 10 98000000) = ''ana''"
    by (simp_all add: w_ana_def offer_ana_def offer0_def)
  have k: "distinct (map post_id (posts (w_ana 10)))"
    by (simp add: p)
  show ?thesis
    using deleteOwnPost_outcomes [OF k u(2), of "''ana''"]
      deleteOwnPost_outcomes [OF k u(1), of "''bob''"]
      deleteOwnPost_outcomes [OF k u(1), of "''ana''"] u k
    by (simp add: p)
qed

section \<open>Updating a product\<close>

lemma update_swallows:
  "db_product_update i nm cat w = (Inl err, w') \<Longrightarrow> error_code err \<noteq> Some ''P2002'' \<Longrightarrow>
   update i nm cat w = (Inr None, w')"
  by (simp add: update_def)

text \<open>
  C10. An update of a product that does not exist is refused by the store with the
  code \<^verbatim>\<open>P2025\<close>. The \<^verbatim>\<open>catch\<close> handler of \<^verbatim>\<open>update\<close> rethrows nothing for this code, and
  the procedure resolves without a value instead of failing.
\<close>

theorem update_failure_resolves:
  "db_product_update ''33333333-3333-4333-8333-333333333333'' ''pan''
      ''44444444-4444-4444-8444-444444444444'' w0
     = (Inl (PrismaClientKnownRequestError ''P2025''), w0) \<and>
   update ''33333333-3333-4333-8333-333333333333'' ''pan''
      ''44444444-4444-4444-8444-444444444444'' w0
     = (Inr None, w0)"
  by (simp add: update_def db_product_update_def w0_def)

section \<open>The daily feed\<close>

lemma set_distinct_by: "set (distinct_by f xs) \<subseteq> set xs"
  by (induction f xs rule: distinct_by.induct) auto

lemma keys_distinct_by: "f ` set (distinct_by f xs) = f ` set xs"
proof (induction f xs rule: distinct_by.induct)
  case (1 f)
  show ?case by simp
next
  case (2 f x xs)
  have "f ` set (x # xs) = insert (f x) (f ` set (filter (\<lambda>y. f y \<noteq> f x) xs))"
    by auto
  with 2 show ?case by simp
qed

lemma distinct_distinct_by: "distinct (map f (distinct_by f xs))"
proof (induction f xs rule: distinct_by.induct)
  case (1 f)
  show ?case by simp
next
  case (2 f x xs)
  have "f x \<notin> f ` set (distinct_by f (filter (\<lambda>y. f y \<noteq> f x) xs))"
    by (auto simp: keys_distinct_by)
  with 2 show ?case by simp
qed

lemma sorted_wrt_distinct_by: "sorted_wrt R xs \<Longrightarrow> sorted_wrt R (distinct_by f xs)"
proof (induction f xs rule: distinct_by.induct)
  case (1 f)
  show ?case by simp
next
  case (2 f x xs)
  have "sorted_wrt R (filter (\<lambda>y. f y \<noteq> f x) xs)"
    using "2.prems" by (simp add: sorted_wrt_filter)
  then have "sorted_wrt R (distinct_by f (filter (\<lambda>y. f y \<noteq> f x) xs))"
    by (rule "2.IH")
  moreover have "\<forall>y \<in> set (distinct_by f (filter (\<lambda>y. f y \<noteq> f x) xs)). R x y"
    using "2.prems" set_distinct_by [of f "filter (\<lambda>y. f y \<noteq> f x) xs"] by auto
  ultimately show ?case by simp
qed

lemma first_distinct_by:
  "sorted_wrt R xs \<Longrightarrow> (\<And>z. R z z) \<Longrightarrow> x \<in> set (distinct_by f xs) \<Longrightarrow> y \<in> set xs \<Longrightarrow>
   f y = f x \<Longrightarrow> R x y"
proof (induction f xs rule: distinct_by.induct)
  case (1 f)
  then show ?case by simp
next
  case (2 f a xs)
  show ?case
  proof (cases "x = a")
    case True
    then show ?thesis using "2.prems" by auto
  next
    case False
    then have x: "x \<in> set (distinct_by f (filter (\<lambda>y. f y \<noteq> f a) xs))"
      using "2.prems"(3) by simp
    then have "f x \<noteq> f a"
      using set_distinct_by [of f "filter (\<lambda>y. f y \<noteq> f a) xs"] by auto
    then have y: "y \<in> set (filter (\<lambda>y. f y \<noteq> f a) xs)"
      using "2.prems"(4,5) by auto
    have "sorted_wrt R (filter (\<lambda>y. f y \<noteq> f a) xs)"
      using "2.prems"(1) by (simp add: sorted_wrt_filter)
    then show ?thesis
      using "2.IH" "2.prems"(2,5) x y by blast
  qed
qed

lemma sorted_wrt_sort_key:
  "sorted_wrt (\<lambda>a b. k a \<le> k b) (sort_key k xs)"
  using sorted_sort_key [of k xs] by (simp add: sorted_map)

text \<open>
  C9. \<^verbatim>\<open>getDailyBestOffers\<close> always returns rows. Every row is an offer of the day with the
  number of its collaborations; the rows are in order of price, lowest first, and within
  a price of publication, latest first; no two rows have the same product; and every
  offer of the day has its product's row, which is cheaper, or as cheap and at least as
  recent. So each product with an offer of the day has exactly one row, its best offer.
  For the feed of \<open>w_feed\<close> the result is the later offer at 30 alone.
\<close>

theorem getDailyBestOffers_ranking:
  assumes "dayStart w = Some d"
  shows "\<exists>rows. getDailyBestOffers w = Inr rows \<and>
    (\<forall>r \<in> set rows. offer r \<in> set (posts w) \<and> d \<le> publishDate (offer r) \<and>
       count_colaborations r =
         length (filter (\<lambda>c. postId c = post_id (offer r)) (colaborations w))) \<and>
    sorted_wrt (\<lambda>a b. price a < price b \<or> (price a = price b \<and> publishDate b \<le> publishDate a))
      (map offer rows) \<and>
    distinct (map (\<lambda>r. productId (offer r)) rows) \<and>
    (\<forall>p \<in> set (posts w). d \<le> publishDate p \<longrightarrow>
       (\<exists>r \<in> set rows. productId (offer r) = productId p \<and>
          (price (offer r) < price p \<or>
           (price (offer r) = price p \<and> publishDate p \<le> publishDate (offer r)))))"
proof -
  define k where "k = (\<lambda>p::post. (price p, - publishDate p))"
  define B where
    "B = (\<lambda>(a::post) (b::post). price a < price b \<or> (price a = price b \<and> publishDate b \<le> publishDate a))"
  define today where "today = filter (\<lambda>p. d \<le> publishDate p) (posts w)"
  define ps where "ps = distinct_by productId (sort_key k today)"
  define ann where
    "ann = (\<lambda>p::post. \<lparr>offer = p, count_colaborations =
                 length (filter (\<lambda>c. postId c = post_id p) (colaborations w))\<rparr>)"
  define rows where "rows = map ann ps"
  have kB: "k a \<le> k b \<Longrightarrow> B a b" for a b
    by (auto simp: k_def B_def)
  have res: "getDailyBestOffers w = Inr rows"
    using assms
    by (simp add: getDailyBestOffers_def dayStart_def db_post_findMany_daily_def
        rows_def ann_def ps_def k_def today_def)
  have offers: "map offer rows = ps"
    by (simp add: rows_def ann_def comp_def)
  have sub: "set ps \<subseteq> set today"
    using set_distinct_by [of productId "sort_key k today"] by (simp add: ps_def)
  have c1: "offer r \<in> set (posts w) \<and> d \<le> publishDate (offer r) \<and>
       count_colaborations r =
         length (filter (\<lambda>c. postId c = post_id (offer r)) (colaborations w))"
    if "r \<in> set rows" for r
  proof -
    from that have "r \<in> ann ` set ps"
      by (simp add: rows_def)
    then obtain p where p: "p \<in> set ps" "r = ann p"
      by blast
    then have "p \<in> set today" using sub by blast
    then show ?thesis using p(2) by (simp add: today_def ann_def)
  qed
  have srt: "sorted_wrt (\<lambda>a b. k a \<le> k b) (sort_key k today)"
    by (rule sorted_wrt_sort_key)
  have "sorted_wrt (\<lambda>a b. k a \<le> k b) ps"
    unfolding ps_def using srt by (rule sorted_wrt_distinct_by)
  then have c2: "sorted_wrt B (map offer rows)"
    unfolding offers by (rule sorted_wrt_mono_rel [rotated]) (rule kB)
  have c3: "distinct (map (\<lambda>r. productId (offer r)) rows)"
    using distinct_distinct_by [of productId "sort_key k today"]
    by (simp add: rows_def ann_def ps_def comp_def)
  have c4: "\<exists>r \<in> set rows. productId (offer r) = productId p \<and> B (offer r) p"
    if p: "p \<in> set (posts w)" "d \<le> publishDate p" for p
  proof -
    have pt: "p \<in> set (sort_key k today)"
      using p by (simp add: today_def)
    then have "productId p \<in> productId ` set (sort_key k today)"
      by (rule imageI)
    then have "productId p \<in> productId ` set ps"
      by (simp only: ps_def keys_distinct_by)
    then obtain q where q: "q \<in> set ps" "productId q = productId p"
      by auto
    have "k q \<le> k p"
      by (rule first_distinct_by [where R = "\<lambda>a b. k a \<le> k b" and f = productId, OF srt])
        (use q pt in \<open>simp_all add: ps_def\<close>)
    then have "B q p" by (rule kB)
    moreover have "ann q \<in> set rows" "offer (ann q) = q"
      using q(1) by (simp_all add: rows_def ann_def)
    ultimately show ?thesis
      using q(2) by (intro bexI [of _ "ann q"]) simp_all
  qed
  have "getDailyBestOffers w = Inr rows \<and>
    (\<forall>r \<in> set rows. offer r \<in> set (posts w) \<and> d \<le> publishDate (offer r) \<and>
       count_colaborations r =
         length (filter (\<lambda>c. postId c = post_id (offer r)) (colaborations w))) \<and>
    sorted_wrt B (map offer rows) \<and>
    distinct (map (\<lambda>r. productId (offer r)) rows) \<and>
    (\<forall>p \<in> set (posts w). d \<le> publishDate p \<longrightarrow>
       (\<exists>r \<in> set rows. productId (offer r) = productId p \<and> B (offer r) p))"
    using res c1 c2 c3 c4 by blast
  then show ?thesis
    unfolding B_def by (rule exI)
qed


theorem getDailyBestOffers_ranking_witness:
  "dayStart w_feed = Some 97200000 \<and>
   getDailyBestOffers w_feed =
     Inr [\<lparr>offer = offer0 ''row-30b'' 30 97500000, count_colaborations = 1\<rparr>]"
proof -
  have d: "dayStart w_feed = Some 97200000"
    by (simp add: dayStart_value w_feed_def w0_def)
  have e: "getDailyBestOffers w_feed =
     Inr [\<lparr>offer = offer0 ''row-30b'' 30 97500000, count_colaborations = 1\<rparr>]"
    unfolding getDailyBestOffers_def d [unfolded dayStart_def]
    by (simp add: db_post_findMany_daily_def w_feed_def w0_def offer0_def)
  obtain rows where "getDailyBestOffers w_feed = Inr rows"
      and "distinct (map (\<lambda>r. productId (offer r)) rows)"
    using getDailyBestOffers_ranking [OF d] by blast
  then have "length rows = 1"
    using e by auto
  then show ?thesis
    using d e by simp
qed

end
